theory Spec2Isabelle
  imports Complex_Main
begin

section \<open>Numbers and helpers of the Python runtime\<close>

text \<open>
  The analyser and the recorder of MoodRhythm compute with Python floats. They are modelled
  as reals: every statement below is about the exact arithmetic the source formulas
  denote. Optional values (\<open>None\<close>) are \<open>option\<close>; exceptions are values of \<open>py_error\<close>.
\<close>

datatype py_error = IndexError | TypeError | CallbackError

definition py_int :: "real \<Rightarrow> int" where
  \<comment> \<open>\<open>int(x)\<close> on a float: truncation towards zero.\<close>
  "py_int x = (if 0 \<le> x then \<lfloor>x\<rfloor> else \<lceil>x\<rceil>)"

definition py_round :: "real \<Rightarrow> nat \<Rightarrow> real" where
  \<comment> \<open>\<open>round(x, nd)\<close>: to \<open>nd\<close> decimals, a tie going to the even neighbour.\<close>
  "py_round x nd =
     (let y = x * 10 ^ nd; f = \<lfloor>y\<rfloor>; d = y - of_int f
      in of_int (if d < 1 / 2 then f
                 else if 1 / 2 < d then f + 1
                 else if even f then f else f + 1) / 10 ^ nd)"

definition np_mean :: "real list \<Rightarrow> real" where
  "np_mean xs = sum_list xs / real (length xs)"

definition np_std :: "real list \<Rightarrow> real" where
  \<comment> \<open>\<open>np.std\<close> with its default \<open>ddof=0\<close>: the population standard deviation.\<close>
  "np_std xs = sqrt (np_mean (map (\<lambda>x. (x - np_mean xs)\<^sup>2) xs))"

section \<open>Timing events\<close>

record event =
  timestamp :: real
  interval :: "real option"
  is_pause :: bool
  is_burst :: bool
  session_id :: "string option"

definition intervals_of :: "event list \<Rightarrow> real list" where
  \<comment> \<open>\<open>[e['interval'] for e in events if e.get('interval') is not None]\<close>\<close>
  "intervals_of events = List.map_filter interval events"

definition count_where :: "(event \<Rightarrow> bool) \<Rightarrow> event list \<Rightarrow> nat" where
  \<comment> \<open>\<open>sum(1 for e in events if p(e))\<close>\<close>
  "count_where p events = length (filter p events)"

section \<open>mood\_analyzer.py: the energy score\<close>

definition calculate_energy_score :: "event list \<Rightarrow> real option \<Rightarrow> int" where
  "calculate_energy_score events wpm =
     (if events = [] then 50
      else
        let intervals = intervals_of events in
        if intervals = [] then 50
        else
          let burst_count = count_where is_burst events;
              pause_count = count_where is_pause events;
              avg_interval = np_mean intervals;
              speed_score = max 0 (min 100 (100 - avg_interval / 10));
              burst_ratio = real burst_count / real (length events);
              burst_score = min 100 (burst_ratio * 300);
              pause_ratio = real pause_count / real (length events);
              pause_penalty = pause_ratio * 50;
              energy = (speed_score * 0.4 + burst_score * 0.4) - pause_penalty;
              energy' = (case wpm of
                           None \<Rightarrow> energy
                         | Some w \<Rightarrow> if w = 0 then energy
                                     else energy * min 1.5 (w / 40))
          in max 0 (min 100 (py_int energy')))"

section \<open>mood\_analyzer.py: mood detection\<close>

datatype mood_state = Focused | Stressed | Relaxed | Fatigued | Neutral

record mood_result =
  mood :: mood_state
  confidence :: real
  indicators :: "string \<rightharpoonup> real"

text \<open>The thresholds set in \<open>MoodAnalyzer.__init__\<close>.\<close>

definition LOW_WPM_THRESHOLD :: real where "LOW_WPM_THRESHOLD = 30"
definition HIGH_BURST_RATIO :: real where "HIGH_BURST_RATIO = 0.3"
definition HIGH_PAUSE_RATIO :: real where "HIGH_PAUSE_RATIO = 0.1"
definition RHYTHM_CONSISTENCY_THRESHOLD :: real where "RHYTHM_CONSISTENCY_THRESHOLD = 0.3"

text \<open>
  The metrics \<open>detect_mood\<close> computes once the input has passed its two guards, each
  under the name of the source's local variable.
\<close>

definition cv_of :: "event list \<Rightarrow> real" where
  \<comment> \<open>\<open>cv = std_interval / avg_interval if avg_interval > 0 else 0\<close>\<close>
  "cv_of events =
     (let intervals = intervals_of events;
          avg_interval = np_mean intervals;
          std_interval = np_std intervals
      in if avg_interval > 0 then std_interval / avg_interval else 0)"

definition burst_ratio_of :: "event list \<Rightarrow> real" where
  "burst_ratio_of events = real (count_where is_burst events) / real (length events)"

definition pause_ratio_of :: "event list \<Rightarrow> real" where
  "pause_ratio_of events = real (count_where is_pause events) / real (length events)"

definition span_minutes :: "event list \<Rightarrow> real" where
  \<comment> \<open>\<open>(events[-1]['timestamp'] - events[0]['timestamp']) / 1000 / 60\<close>; only called on a
      non-empty list, so both events exist.\<close>
  "span_minutes events = (timestamp (last events) - timestamp (hd events)) / 1000 / 60"

definition wpm_used :: "event list \<Rightarrow> real option \<Rightarrow> real" where
  \<comment> \<open>The supplied wpm, or the estimate made \<open>if wpm is None\<close>.\<close>
  "wpm_used events wpm =
     (case wpm of
        Some w \<Rightarrow> w
      | None \<Rightarrow>
          let session_duration = span_minutes events
          in if session_duration > 0
             then (real (length events) / 5) / max session_duration 0.01
             else 0)"

definition insufficient :: mood_result where
  "insufficient = \<lparr>mood = Neutral, confidence = 0, indicators = Map.empty\<rparr>"

definition detect_mood :: "event list \<Rightarrow> real option \<Rightarrow> mood_result" where
  "detect_mood events wpm =
     (if events = [] \<or> length events < 10 then insufficient
      else
        let intervals = intervals_of events in
        if length intervals < 5 then insufficient
        else
          let avg_interval = np_mean intervals;
              cv = cv_of events;
              burst_ratio = burst_ratio_of events;
              pause_ratio = pause_ratio_of events;
              w = wpm_used events wpm;
              ind = [''avg_interval'' \<mapsto> py_round avg_interval 1,
                     ''rhythm_consistency'' \<mapsto> py_round (1 - min cv 1) 2,
                     ''burst_ratio'' \<mapsto> py_round burst_ratio 3,
                     ''pause_ratio'' \<mapsto> py_round pause_ratio 3,
                     ''wpm'' \<mapsto> py_round w 1];
              (m, c) =
                (if cv < RHYTHM_CONSISTENCY_THRESHOLD \<and> w > 35
                   then (Focused, 0.7 + 0.3 * (1 - cv))
                 else if burst_ratio > HIGH_BURST_RATIO \<and> cv > 0.5
                   then (Stressed, 0.6 + burst_ratio * 0.4)
                 else if w < LOW_WPM_THRESHOLD \<and> pause_ratio < HIGH_PAUSE_RATIO
                   then (Relaxed, 0.6 + 0.4 * (1 - w / 30))
                 else if pause_ratio > HIGH_PAUSE_RATIO
                   then (Fatigued, 0.5 + pause_ratio * 2)
                 else (Neutral, 0.5))
          in \<lparr>mood = m, confidence = min c 1.0, indicators = ind\<rparr>)"

text \<open>Inputs used to exercise the analyser.\<close>

definition paused :: event where
  "paused = \<lparr>timestamp = 0, interval = Some 3000, is_pause = True, is_burst = False,
             session_id = None\<rparr>"

definition steady :: event where
  "steady = \<lparr>timestamp = 0, interval = Some 100, is_pause = False, is_burst = False,
             session_id = None\<rparr>"

definition untimed :: event where
  "untimed = \<lparr>timestamp = 0, interval = None, is_pause = False, is_burst = False,
              session_id = None\<rparr>"

definition pause_heavy_events :: "event list" where
  "pause_heavy_events = replicate 15 paused @ replicate 5 steady"

definition same_instant_events :: "event list" where
  "same_instant_events = replicate 10 steady"

definition one_minute_events :: "event list" where
  "one_minute_events = replicate 9 steady @ [steady\<lparr>timestamp := 60000\<rparr>]"

section \<open>mood\_analyzer.py: session analysis and the mood timeline\<close>

record analysis =
  an_mood :: mood_state
  mood_confidence :: "real option"
  energy_score :: int
  an_wpm :: real
  total_keypresses :: nat
  duration_seconds :: real
  an_indicators :: "string \<rightharpoonup> real"

definition analyze_session :: "event list \<Rightarrow> analysis" where
  \<comment> \<open>The dictionary returned for the empty list has no \<open>mood_confidence\<close> key.\<close>
  "analyze_session events =
     (if events = [] then
        \<lparr>an_mood = Neutral, mood_confidence = None, energy_score = 50, an_wpm = 0,
         total_keypresses = 0, duration_seconds = 0, an_indicators = Map.empty\<rparr>
      else
        let (ds, dm) =
              (if length events \<ge> 2
               then let duration_ms = timestamp (last events) - timestamp (hd events);
                        ds = duration_ms / 1000
                    in (ds, ds / 60)
               else (0, 0));
            w = (real (length events) / 5) / max dm 0.01;
            mood_result = detect_mood events (Some w);
            es = calculate_energy_score events (Some w)
        in \<lparr>an_mood = mood mood_result, mood_confidence = Some (confidence mood_result),
            energy_score = es, an_wpm = py_round w 1,
            total_keypresses = length events, duration_seconds = py_round ds 1,
            an_indicators = indicators mood_result\<rparr>)"

record timeline_point =
  tp_timestamp :: real
  tp_mood :: mood_state
  tp_energy_score :: int
  tp_wpm :: real

definition py_slice :: "'a list \<Rightarrow> int \<Rightarrow> int \<Rightarrow> 'a list" where
  \<comment> \<open>\<open>xs[a:b]\<close>: a negative bound counts from the end, both bounds are clipped.\<close>
  "py_slice xs a b =
     (let n = int (length xs);
          lo = (if a < 0 then max (n + a) 0 else min a n);
          hi = (if b < 0 then max (n + b) 0 else min b n)
      in take (nat (hi - lo)) (drop (nat lo) xs))"

definition window_point :: "event list \<Rightarrow> timeline_point" where
  \<comment> \<open>The dictionary appended for a non-empty \<open>window\<close>.\<close>
  "window_point window =
     (let analysis = analyze_session window
      in \<lparr>tp_timestamp = timestamp (last window), tp_mood = an_mood analysis,
          tp_energy_score = energy_score analysis, tp_wpm = an_wpm analysis\<rparr>)"

function timeline_loop ::
  "event list \<Rightarrow> int \<Rightarrow> int \<Rightarrow> timeline_point list \<Rightarrow> py_error + timeline_point list" where
  "timeline_loop events window_size i timeline =
     (if i < int (length events) - window_size + 1 then
        if py_slice events i (i + window_size) = [] then Inl IndexError
        else timeline_loop events window_size (i + max 1 (window_size div 2))
               (timeline @ [window_point (py_slice events i (i + window_size))])
      else Inr timeline)"
  by pat_completeness auto
termination
  by (relation "measure (\<lambda>(events, window_size, i, timeline).
                   nat (int (length events) - window_size + 1 - i))") auto

definition calculate_mood_timeline ::
  "event list \<Rightarrow> int \<Rightarrow> py_error + timeline_point list" where
  \<comment> \<open>The loop is \<open>for i in range(0, len(events) - window_size + 1, step)\<close>; \<open>window[-1]\<close>
      raises IndexError on an empty window.\<close>
  "calculate_mood_timeline events window_size =
     (if int (length events) < window_size then
        let analysis = analyze_session events
        in Inr [\<lparr>tp_timestamp = (if events \<noteq> [] then timestamp (last events) else 0),
                 tp_mood = an_mood analysis, tp_energy_score = energy_score analysis,
                 tp_wpm = an_wpm analysis\<rparr>]
      else timeline_loop events window_size 0 [])"

definition stride :: "nat \<Rightarrow> nat" where
  \<comment> \<open>\<open>step = max(1, window_size // 2)\<close> for a window size that is not negative.\<close>
  "stride w = max 1 (w div 2)"

definition ramp :: "nat \<Rightarrow> event list" where
  \<comment> \<open>\<open>n\<close> events, 100 ms apart, for exercising the timeline.\<close>
  "ramp n = map (\<lambda>k. steady\<lparr>timestamp := real k * 100\<rparr>) [0..<n]"

section \<open>mood\_analyzer.py: the weekly rhythm\<close>

record hourly_stat =
  day_of_week :: int
  hour :: int
  keypress_count :: int

record weekly_rhythm =
  peak_hour :: "nat option"
  peak_day :: "nat option"
  activity_matrix :: "int list list"
  insights :: "string list"

definition py_index :: "nat \<Rightarrow> int \<Rightarrow> nat option" where
  \<comment> \<open>The position a Python index \<open>i\<close> denotes in a list of length \<open>n\<close>: a negative index
      counts from the end, anything else out of range raises IndexError (\<open>None\<close>).\<close>
  "py_index n i =
     (if 0 \<le> i \<and> i < int n then Some (nat i)
      else if - int n \<le> i \<and> i < 0 then Some (nat (int n + i))
      else None)"

definition set_cell :: "int list list \<Rightarrow> int \<Rightarrow> int \<Rightarrow> int \<Rightarrow> py_error + int list list" where
  \<comment> \<open>\<open>activity_matrix[day][hour] = v\<close>\<close>
  "set_cell m day hr v =
     (case py_index (length m) day of
        None \<Rightarrow> Inl IndexError
      | Some d \<Rightarrow>
          (case py_index (length (m ! d)) hr of
             None \<Rightarrow> Inl IndexError
           | Some h \<Rightarrow> Inr (m[d := (m ! d)[h := v]])))"

fun fill_matrix :: "int list list \<Rightarrow> hourly_stat list \<Rightarrow> py_error + int list list" where
  "fill_matrix m [] = Inr m"
| "fill_matrix m (stat # rest) =
     (case set_cell m (day_of_week stat) (hour stat) (keypress_count stat) of
        Inl e \<Rightarrow> Inl e
      | Inr m' \<Rightarrow> fill_matrix m' rest)"

definition zero_matrix :: "int list list" where
  \<comment> \<open>\<open>[[0 for _ in range(24)] for _ in range(7)]\<close>\<close>
  "zero_matrix = replicate 7 (replicate 24 0)"

definition scan_cell :: "int list list \<Rightarrow> int \<times> nat \<times> nat \<Rightarrow> nat \<times> nat \<Rightarrow> int \<times> nat \<times> nat" where
  \<comment> \<open>The body of the peak search on \<open>(max_activity, peak_hour, peak_day)\<close>.\<close>
  "scan_cell m acc cell =
     (case (acc, cell) of
        ((max_activity, ph, pd), (day, hr)) \<Rightarrow>
          if m ! day ! hr > max_activity then (m ! day ! hr, hr, day)
          else (max_activity, ph, pd))"

definition find_peak :: "int list list \<Rightarrow> int \<times> nat \<times> nat" where
  \<comment> \<open>\<open>for day in range(7): for hour in range(24): ...\<close>, from \<open>(0, 0, 0)\<close>.\<close>
  "find_peak m = foldl (scan_cell m) (0, 0, 0) (List.product [0..<7] [0..<24])"

definition day_names :: "string list" where
  "day_names = [''Sunday'', ''Monday'', ''Tuesday'', ''Wednesday'', ''Thursday'', ''Friday'',
                ''Saturday'']"

fun string_of_nat :: "nat \<Rightarrow> string" where
  "string_of_nat n =
     (if n < 10 then [''0123456789'' ! n]
      else string_of_nat (n div 10) @ [''0123456789'' ! (n mod 10)])"

primrec first_index :: "int list \<Rightarrow> int \<Rightarrow> nat" where
  \<comment> \<open>\<open>xs.index(x)\<close> for an \<open>x\<close> that occurs in \<open>xs\<close>.\<close>
  "first_index [] x = 0"
| "first_index (y # ys) x = (if y = x then 0 else Suc (first_index ys x))"

definition py_max :: "int list \<Rightarrow> int" where
  \<comment> \<open>\<open>max(xs)\<close> on a non-empty list.\<close>
  "py_max xs = foldl max (hd xs) (tl xs)"

definition get_weekly_rhythm :: "hourly_stat list \<Rightarrow> py_error + weekly_rhythm" where
  "get_weekly_rhythm hourly_stats =
     (if hourly_stats = [] then
        Inr \<lparr>peak_hour = None, peak_day = None, activity_matrix = [], insights = []\<rparr>
      else
        case fill_matrix zero_matrix hourly_stats of
          Inl e \<Rightarrow> Inl e
        | Inr m \<Rightarrow>
            (case find_peak m of
               (max_activity, ph, pd) \<Rightarrow>
                 let ins1 = (if max_activity > 0
                             then [''Peak activity: '' @ day_names ! pd @ '' at ''
                                   @ string_of_nat ph @ '':00'']
                             else []);
                     daily_totals = map sum_list m;
                     ins2 = (if \<exists>t\<in>set daily_totals. t \<noteq> 0
                             then [''Most active day: ''
                                   @ day_names ! first_index daily_totals (py_max daily_totals)]
                             else [])
                 in Inr \<lparr>peak_hour = Some ph, peak_day = Some pd, activity_matrix = m,
                         insights = ins1 @ ins2\<rparr>))"

definition is_matrix :: "int list list \<Rightarrow> bool" where
  \<comment> \<open>The shape of the activity matrix: 7 rows of 24 cells.\<close>
  "is_matrix m \<longleftrightarrow> length m = 7 \<and> (\<forall>row\<in>set m. length row = 24)"

definition valid_stat :: "hourly_stat \<Rightarrow> bool" where
  \<comment> \<open>The records \<open>get_hourly_stats\<close> builds: \<open>strftime('%w')\<close> is a day 0..6 (Sunday is 0),
      \<open>strftime('%H')\<close> an hour 0..23.\<close>
  "valid_stat s \<longleftrightarrow> 0 \<le> day_of_week s \<and> day_of_week s < 7 \<and> 0 \<le> hour s \<and> hour s < 24"

section \<open>typing\_logger.py: the recorder\<close>

text \<open>
  The state of a \<open>TypingLogger\<close>. The clock (\<open>time.time() * 1000\<close>, in milliseconds) and the
  fresh session identifier are inputs of the operations that read them. The observer
  \<open>on_event_callback\<close> is a function of the event that either returns (\<open>None\<close>) or raises
  (\<open>Some\<close> error); the pynput listener is the caller of \<open>on_press\<close> and is not part of the
  state.
\<close>

record logger =
  is_running :: bool
  lg_session_id :: "string option"
  last_keypress_time :: "real option"
  lg_keypress_count :: nat
  session_start_time :: "real option"
  on_event_callback :: "(event \<Rightarrow> py_error option) option"
  lg_events :: "event list"

definition PAUSE_THRESHOLD :: real where "PAUSE_THRESHOLD = 2000"
definition BURST_THRESHOLD :: real where "BURST_THRESHOLD = 50"

definition init_logger :: "(event \<Rightarrow> py_error option) option \<Rightarrow> logger" where
  \<comment> \<open>\<open>TypingLogger.__init__\<close>\<close>
  "init_logger cb =
     \<lparr>is_running = False, lg_session_id = None, last_keypress_time = None,
      lg_keypress_count = 0, session_start_time = None, on_event_callback = cb,
      lg_events = []\<rparr>"

definition new_event :: "real \<Rightarrow> logger \<Rightarrow> event" where
  \<comment> \<open>The event \<open>_on_press\<close> builds at clock reading \<open>current_time\<close>.\<close>
  "new_event current_time s =
     (case last_keypress_time s of
        None \<Rightarrow>
          \<lparr>timestamp = current_time, interval = None, is_pause = False, is_burst = False,
           session_id = lg_session_id s\<rparr>
      | Some t \<Rightarrow>
          let iv = current_time - t
          in \<lparr>timestamp = current_time, interval = Some iv,
              is_pause = (iv > PAUSE_THRESHOLD), is_burst = (iv < BURST_THRESHOLD),
              session_id = lg_session_id s\<rparr>)"

definition on_press :: "real \<Rightarrow> logger \<Rightarrow> py_error option \<times> logger" where
  \<comment> \<open>\<open>_on_press\<close>: the state after the call, and the exception that left it, if any. The
      three writes precede the observer call, and nothing catches what the observer
      raises.\<close>
  "on_press current_time s =
     (let ev = new_event current_time s;
          s' = s\<lparr>last_keypress_time := Some current_time,
                 lg_keypress_count := lg_keypress_count s + 1,
                 lg_events := lg_events s @ [ev]\<rparr>
      in case on_event_callback s of
           None \<Rightarrow> (None, s')
         | Some cb \<Rightarrow> (cb ev, s'))"

definition start :: "string \<Rightarrow> real \<Rightarrow> logger \<Rightarrow> string option \<times> logger" where
  \<comment> \<open>\<open>start\<close>, given the fresh uuid and the clock reading.\<close>
  "start uuid now s =
     (if is_running s then (lg_session_id s, s)
      else
        let s' = s\<lparr>lg_session_id := Some uuid, session_start_time := Some now,
                   last_keypress_time := None, lg_keypress_count := 0, lg_events := [],
                   is_running := True\<rparr>
        in (lg_session_id s', s'))"

record stats =
  st_wpm :: real
  st_avg_interval :: real
  st_pause_count :: nat
  st_burst_count :: nat
  st_keypress_count :: nat
  st_session_duration :: real

definition get_current_stats :: "real \<Rightarrow> logger \<Rightarrow> py_error + stats" where
  \<comment> \<open>\<open>get_current_stats\<close> at clock reading \<open>now\<close>; it writes nothing to the state. A
      running logger whose start time was never set would fail at the subtraction.\<close>
  "get_current_stats now s =
     (if \<not> is_running s \<or> lg_events s = [] then
        Inr \<lparr>st_wpm = 0, st_avg_interval = 0, st_pause_count = 0, st_burst_count = 0,
             st_keypress_count = 0, st_session_duration = 0\<rparr>
      else
        case session_start_time s of
          None \<Rightarrow> Inl TypeError
        | Some t0 \<Rightarrow>
            let session_duration = (now - t0) / 1000 / 60;
                w = (real (lg_keypress_count s) / 5) / max session_duration 0.01;
                intervals = intervals_of (lg_events s);
                avg = (if intervals \<noteq> [] then sum_list intervals / real (length intervals)
                       else 0);
                pauses = count_where is_pause (lg_events s);
                bursts = count_where is_burst (lg_events s)
            in Inr \<lparr>st_wpm = py_round w 1, st_avg_interval = py_round avg 1,
                    st_pause_count = pauses, st_burst_count = bursts,
                    st_keypress_count = lg_keypress_count s,
                    st_session_duration = py_round (session_duration * 60) 1\<rparr>)"

record session_summary =
  sm_session_id :: "string option"
  sm_duration_seconds :: real
  sm_total_keypresses :: nat
  sm_events :: "event list"

definition stop :: "real \<Rightarrow> logger \<Rightarrow> (py_error + session_summary option) \<times> logger" where
  \<comment> \<open>\<open>stop\<close> at clock reading \<open>now\<close>: the empty dictionary (\<open>None\<close>) when not running;
      otherwise \<open>is_running\<close> is cleared before the duration is computed.\<close>
  "stop now s =
     (if \<not> is_running s then (Inr None, s)
      else
        let s' = s\<lparr>is_running := False\<rparr>
        in case session_start_time s of
             None \<Rightarrow> (Inl TypeError, s')
           | Some t0 \<Rightarrow>
               (Inr (Some \<lparr>sm_session_id = lg_session_id s,
                           sm_duration_seconds = (now - t0) / 1000,
                           sm_total_keypresses = lg_keypress_count s,
                           sm_events = lg_events s\<rparr>), s'))"

text \<open>A recorder that was started at clock 0 and saw one keypress a second later.\<close>

definition one_key_logger :: logger where
  "one_key_logger = snd (on_press 1000 (snd (start ''s1'' 0 (init_logger None))))"

definition restarted_logger :: logger where
  \<comment> \<open>The same recorder, stopped and started again at clock 60000, with no keypress.\<close>
  "restarted_logger = snd (start ''s2'' 60000 (snd (stop 60000 one_key_logger)))"

definition failing_observer :: "event \<Rightarrow> py_error option" where
  "failing_observer ev = Some CallbackError"

section \<open>Properties of the energy score\<close>

lemma intervals_of_all_None:
  "(\<forall>e\<in>set events. interval e = None) \<Longrightarrow> intervals_of events = []"
  by (induction events) (simp_all add: intervals_of_def List.map_filter_simps)

text \<open>
  C1. For every list of events (so for every non-empty one) and every optional wpm,
  \<open>calculate_energy_score\<close> returns an integer between 0 and 100; on the empty list, and
  on a list none of whose events has an interval, it returns exactly 50.
\<close>

theorem energy_score_range:
  "0 \<le> calculate_energy_score events wpm
   \<and> calculate_energy_score events wpm \<le> 100
   \<and> (events = [] \<longrightarrow> calculate_energy_score events wpm = 50)
   \<and> ((\<forall>e\<in>set events. interval e = None) \<longrightarrow> calculate_energy_score events wpm = 50)"
proof -
  have lo: "0 \<le> calculate_energy_score events wpm"
    by (simp add: calculate_energy_score_def Let_def)
  have hi: "calculate_energy_score events wpm \<le> 100"
    by (simp add: calculate_energy_score_def Let_def)
  have e: "events = [] \<longrightarrow> calculate_energy_score events wpm = 50"
    by (simp add: calculate_energy_score_def)
  have n: "(\<forall>e\<in>set events. interval e = None) \<longrightarrow> calculate_energy_score events wpm = 50"
    by (simp add: calculate_energy_score_def intervals_of_all_None)
  from lo hi e n show ?thesis by blast
qed

theorem energy_score_range_witness:
  "interval untimed = None
   \<and> calculate_energy_score [untimed] (Some 40) = 50
   \<and> calculate_energy_score [] None = 50
   \<and> 0 \<le> calculate_energy_score [steady] (Some 40)
   \<and> calculate_energy_score [steady] (Some 40) \<le> 100"
  using energy_score_range [of "[untimed]" "Some 40"]
        energy_score_range [of "[]" None]
        energy_score_range [of "[steady]" "Some 40"]
  by (simp add: untimed_def)

section \<open>Properties of mood detection\<close>

lemma detect_mood_sufficient:
  assumes "10 \<le> length events" and "5 \<le> length (intervals_of events)"
  shows "detect_mood events wpm =
     \<lparr>mood = (if cv_of events < 0.3 \<and> wpm_used events wpm > 35 then Focused
              else if burst_ratio_of events > 0.3 \<and> cv_of events > 0.5 then Stressed
              else if wpm_used events wpm < 30 \<and> pause_ratio_of events < 0.1 then Relaxed
              else if pause_ratio_of events > 0.1 then Fatigued
              else Neutral),
      confidence =
        min (if cv_of events < 0.3 \<and> wpm_used events wpm > 35
               then 0.7 + 0.3 * (1 - cv_of events)
             else if burst_ratio_of events > 0.3 \<and> cv_of events > 0.5
               then 0.6 + burst_ratio_of events * 0.4
             else if wpm_used events wpm < 30 \<and> pause_ratio_of events < 0.1
               then 0.6 + 0.4 * (1 - wpm_used events wpm / 30)
             else if pause_ratio_of events > 0.1 then 0.5 + pause_ratio_of events * 2
             else 0.5) 1,
      indicators = [''avg_interval'' \<mapsto> py_round (np_mean (intervals_of events)) 1,
                    ''rhythm_consistency'' \<mapsto> py_round (1 - min (cv_of events) 1) 2,
                    ''burst_ratio'' \<mapsto> py_round (burst_ratio_of events) 3,
                    ''pause_ratio'' \<mapsto> py_round (pause_ratio_of events) 3,
                    ''wpm'' \<mapsto> py_round (wpm_used events wpm) 1]\<rparr>"
proof -
  from assms have g1: "\<not> (events = [] \<or> length events < 10)"
    by auto
  from assms have g2: "\<not> length (intervals_of events) < 5"
    by auto
  have unf: "detect_mood events wpm =
      (let (m, c) =
             (if cv_of events < 0.3 \<and> wpm_used events wpm > 35
                then (Focused, 0.7 + 0.3 * (1 - cv_of events))
              else if burst_ratio_of events > 0.3 \<and> cv_of events > 0.5
                then (Stressed, 0.6 + burst_ratio_of events * 0.4)
              else if wpm_used events wpm < 30 \<and> pause_ratio_of events < 0.1
                then (Relaxed, 0.6 + 0.4 * (1 - wpm_used events wpm / 30))
              else if pause_ratio_of events > 0.1
                then (Fatigued, 0.5 + pause_ratio_of events * 2)
              else (Neutral, 0.5))
       in \<lparr>mood = m, confidence = min c 1.0,
           indicators = [''avg_interval'' \<mapsto> py_round (np_mean (intervals_of events)) 1,
                         ''rhythm_consistency'' \<mapsto> py_round (1 - min (cv_of events) 1) 2,
                         ''burst_ratio'' \<mapsto> py_round (burst_ratio_of events) 3,
                         ''pause_ratio'' \<mapsto> py_round (pause_ratio_of events) 3,
                         ''wpm'' \<mapsto> py_round (wpm_used events wpm) 1]\<rparr>)"
    unfolding detect_mood_def Let_def RHYTHM_CONSISTENCY_THRESHOLD_def HIGH_BURST_RATIO_def
      LOW_WPM_THRESHOLD_def HIGH_PAUSE_RATIO_def
    by (simp only: g1 g2 if_False)
  show ?thesis
    unfolding unf Let_def
    by (simp only: if_distrib[of "case_prod _"] prod.case if_distrib[of "\<lambda>c. min c _"]
          cong: if_cong) simp
qed

text \<open>Facts about the inputs above, by evaluation.\<close>

lemma intervals_of_simps:
  "intervals_of [] = []"
  "intervals_of (e # es) =
     (case interval e of None \<Rightarrow> intervals_of es | Some i \<Rightarrow> i # intervals_of es)"
  unfolding intervals_of_def by (simp_all add: List.map_filter_simps)

lemma intervals_of_replicate:
  "intervals_of (replicate n e) = (case interval e of None \<Rightarrow> [] | Some i \<Rightarrow> replicate n i)"
  by (induction n) (simp_all add: intervals_of_simps split: option.splits)

lemma intervals_of_append:
  "intervals_of (xs @ ys) = intervals_of xs @ intervals_of ys"
  by (simp add: intervals_of_def List.map_filter_def)

lemma pause_heavy_facts:
  "length pause_heavy_events = 20"
  "count_where is_pause pause_heavy_events = 15"
  "count_where is_burst pause_heavy_events = 0"
  "length (intervals_of pause_heavy_events) = 20"
  by (simp_all add: pause_heavy_events_def count_where_def paused_def steady_def
        intervals_of_append intervals_of_replicate)

lemma same_instant_facts:
  "length same_instant_events = 10"
  "intervals_of same_instant_events = replicate 10 100"
  "count_where is_pause same_instant_events = 0"
  "count_where is_burst same_instant_events = 0"
  "span_minutes same_instant_events = 0"
  by (simp_all add: same_instant_events_def count_where_def steady_def
        intervals_of_replicate span_minutes_def)

lemma same_instant_cv: "cv_of same_instant_events = 0"
  by (simp add: cv_of_def same_instant_facts np_mean_def np_std_def Let_def sum_list_replicate)

lemma one_minute_facts:
  "length one_minute_events = 10"
  "length (intervals_of one_minute_events) = 10"
  "span_minutes one_minute_events = 1"
  by (simp_all add: one_minute_events_def steady_def intervals_of_append
        intervals_of_replicate span_minutes_def intervals_of_simps)

text \<open>
  C3. An input of fewer than 10 events, or with fewer than 5 events that carry an
  interval, is answered with mood Neutral, confidence 0.0 and the empty indicators
  dictionary, whatever the events hold and whatever wpm is supplied.
\<close>

theorem detect_mood_insufficient:
  "length events < 10 \<or> length (intervals_of events) < 5 \<Longrightarrow>
   detect_mood events wpm = \<lparr>mood = Neutral, confidence = 0, indicators = Map.empty\<rparr>"
  by (auto simp add: detect_mood_def insufficient_def Let_def)

theorem detect_mood_insufficient_witness:
  "length (replicate 9 paused) < 10
   \<and> detect_mood (replicate 9 paused) (Some 80)
       = \<lparr>mood = Neutral, confidence = 0, indicators = Map.empty\<rparr>
   \<and> length (intervals_of (replicate 4 steady @ replicate 8 untimed)) < 5
   \<and> detect_mood (replicate 4 steady @ replicate 8 untimed) None
       = \<lparr>mood = Neutral, confidence = 0, indicators = Map.empty\<rparr>"
proof -
  have a: "length (replicate 9 paused) < 10"
    by simp
  have b: "length (intervals_of (replicate 4 steady @ replicate 8 untimed)) < 5"
    by (simp add: intervals_of_append intervals_of_replicate steady_def untimed_def)
  from a b show ?thesis
    using detect_mood_insufficient [of "replicate 9 paused" "Some 80"]
      detect_mood_insufficient [of "replicate 4 steady @ replicate 8 untimed" None]
    by simp
qed

lemma pauses_have_intervals:
  "(\<forall>e\<in>set events. interval e = None \<longrightarrow> \<not> is_pause e) \<Longrightarrow>
   count_where is_pause events \<le> length (intervals_of events)"
  by (induction events)
     (auto simp add: count_where_def intervals_of_simps split: option.splits)

text \<open>
  C2. \<open>detect_mood\<close> classifies by the ordered rule list, the first rule that matches
  deciding: on an input that has passed the two data-sufficiency guards of claim C3, the
  mood is Focused if rule 1 holds, else Stressed if rule 2 holds, else Relaxed if rule 3
  holds, else Fatigued if rule 4 holds, else Neutral with confidence 0.5, every
  confidence capped at 1. In particular every list of 20 timing events with 15 of them
  marked \<open>is_pause\<close>, on which rules 1 to 3 do not fire, is Fatigued with confidence
  \<open>min (0.5 + 0.75 * 2) 1.0 = 1\<close>. The events are timing events of the data model, as
  the recorder builds them: an event without an interval is not marked as a pause. Hence
  the 15 pauses carry 15 intervals and both guards are passed.
\<close>

theorem detect_mood_first_match:
  "(10 \<le> length events \<and> 5 \<le> length (intervals_of events) \<longrightarrow>
      (mood (detect_mood events wpm), confidence (detect_mood events wpm)) =
        (if cv_of events < 0.3 \<and> wpm_used events wpm > 35
           then (Focused, min (0.7 + 0.3 * (1 - cv_of events)) 1)
         else if burst_ratio_of events > 0.3 \<and> cv_of events > 0.5
           then (Stressed, min (0.6 + burst_ratio_of events * 0.4) 1)
         else if wpm_used events wpm < 30 \<and> pause_ratio_of events < 0.1
           then (Relaxed, min (0.6 + 0.4 * (1 - wpm_used events wpm / 30)) 1)
         else if pause_ratio_of events > 0.1
           then (Fatigued, min (0.5 + pause_ratio_of events * 2) 1)
         else (Neutral, 0.5)))
   \<and> (length events = 20 \<and> count_where is_pause events = 15
        \<and> (\<forall>e\<in>set events. interval e = None \<longrightarrow> \<not> is_pause e)
        \<and> \<not> (cv_of events < 0.3 \<and> wpm_used events wpm > 35)
        \<and> \<not> (burst_ratio_of events > 0.3 \<and> cv_of events > 0.5)
        \<and> \<not> (wpm_used events wpm < 30 \<and> pause_ratio_of events < 0.1)
      \<longrightarrow> mood (detect_mood events wpm) = Fatigued
          \<and> confidence (detect_mood events wpm) = min (0.5 + 0.75 * 2) 1.0
          \<and> confidence (detect_mood events wpm) = 1)"
proof (intro conjI impI)
  assume "10 \<le> length events \<and> 5 \<le> length (intervals_of events)"
  then have s: "10 \<le> length events" "5 \<le> length (intervals_of events)"
    by simp_all
  show "(mood (detect_mood events wpm), confidence (detect_mood events wpm)) =
        (if cv_of events < 0.3 \<and> wpm_used events wpm > 35
           then (Focused, min (0.7 + 0.3 * (1 - cv_of events)) 1)
         else if burst_ratio_of events > 0.3 \<and> cv_of events > 0.5
           then (Stressed, min (0.6 + burst_ratio_of events * 0.4) 1)
         else if wpm_used events wpm < 30 \<and> pause_ratio_of events < 0.1
           then (Relaxed, min (0.6 + 0.4 * (1 - wpm_used events wpm / 30)) 1)
         else if pause_ratio_of events > 0.1
           then (Fatigued, min (0.5 + pause_ratio_of events * 2) 1)
         else (Neutral, 0.5))"
    unfolding detect_mood_sufficient [OF s] by simp
next
  assume a: "length events = 20 \<and> count_where is_pause events = 15
        \<and> (\<forall>e\<in>set events. interval e = None \<longrightarrow> \<not> is_pause e)
        \<and> \<not> (cv_of events < 0.3 \<and> wpm_used events wpm > 35)
        \<and> \<not> (burst_ratio_of events > 0.3 \<and> cv_of events > 0.5)
        \<and> \<not> (wpm_used events wpm < 30 \<and> pause_ratio_of events < 0.1)"
  then have "count_where is_pause events \<le> length (intervals_of events)"
    using pauses_have_intervals by blast
  with a have s: "10 \<le> length events" "5 \<le> length (intervals_of events)"
    by simp_all
  from a have pr: "pause_ratio_of events = 3 / 4"
    by (simp add: pause_ratio_of_def)
  from a have n1: "\<not> (cv_of events < 0.3 \<and> wpm_used events wpm > 35)"
    and n2: "\<not> (burst_ratio_of events > 0.3 \<and> cv_of events > 0.5)"
    and n3: "\<not> (wpm_used events wpm < 30 \<and> pause_ratio_of events < 0.1)"
    by blast+
  from pr have r4: "pause_ratio_of events > 0.1"
    by simp
  have m: "detect_mood events wpm =
      \<lparr>mood = Fatigued, confidence = 1,
       indicators = indicators (detect_mood events wpm)\<rparr>"
    unfolding detect_mood_sufficient [OF s]
    by (simp only: n1 n2 n3 r4 if_False if_True) (simp add: pr)
  show "mood (detect_mood events wpm) = Fatigued"
    by (subst m) simp
  show "confidence (detect_mood events wpm) = min (0.5 + 0.75 * 2) 1.0"
    by (subst m) simp
  show "confidence (detect_mood events wpm) = 1"
    by (subst m) simp
qed

theorem detect_mood_first_match_witness:
  "length pause_heavy_events = 20 \<and> count_where is_pause pause_heavy_events = 15
   \<and> 5 \<le> length (intervals_of pause_heavy_events)
   \<and> mood (detect_mood pause_heavy_events (Some 32)) = Fatigued
   \<and> confidence (detect_mood pause_heavy_events (Some 32)) = 1"
proof -
  have w: "wpm_used pause_heavy_events (Some 32) = 32"
    by (simp add: wpm_used_def)
  have b: "burst_ratio_of pause_heavy_events = 0"
    by (simp add: burst_ratio_of_def pause_heavy_facts)
  have p: "pause_ratio_of pause_heavy_events = 3 / 4"
    by (simp add: pause_ratio_of_def pause_heavy_facts)
  have i: "\<forall>e\<in>set pause_heavy_events. interval e = None \<longrightarrow> \<not> is_pause e"
    by (simp add: pause_heavy_events_def paused_def steady_def)
  show ?thesis
    using detect_mood_first_match [of pause_heavy_events "Some 32"] i
    by (simp add: w b p pause_heavy_facts)
qed

text \<open>
  C6, as stated, fails where the first and the last timestamp coincide: the source guards
  the estimate with \<open>if session_duration > 0 else 0\<close>, so ten events at one instant are
  analysed with wpm 0 (mood Relaxed, indicator 0), not with \<open>(10 / 5) / 0.01 = 200\<close>
  (which, supplied, gives Focused).
\<close>

theorem estimated_wpm_zero_span_counterexample:
  "10 \<le> length same_instant_events
   \<and> 5 \<le> length (intervals_of same_instant_events)
   \<and> span_minutes same_instant_events = 0
   \<and> (real (length same_instant_events) / 5) / max (span_minutes same_instant_events) 0.01 = 200
   \<and> indicators (detect_mood same_instant_events None) ''wpm'' = Some 0
   \<and> mood (detect_mood same_instant_events None) = Relaxed
   \<and> mood (detect_mood same_instant_events (Some 200)) = Focused"
proof -
  have s: "10 \<le> length same_instant_events" "5 \<le> length (intervals_of same_instant_events)"
    by (simp_all add: same_instant_facts)
  have w: "wpm_used same_instant_events None = 0"
    by (simp add: wpm_used_def same_instant_facts)
  have w': "wpm_used same_instant_events (Some 200) = 200"
    by (simp add: wpm_used_def)
  have p: "pause_ratio_of same_instant_events = 0"
    by (simp add: pause_ratio_of_def same_instant_facts)
  have r: "py_round 0 1 = 0"
    by (simp add: py_round_def Let_def)
  have a: "indicators (detect_mood same_instant_events None) ''wpm'' = Some 0"
    unfolding detect_mood_sufficient [OF s] using r by (simp add: w)
  have b: "mood (detect_mood same_instant_events None) = Relaxed"
    unfolding detect_mood_sufficient [OF s] by (simp add: w p same_instant_cv)
  have c: "mood (detect_mood same_instant_events (Some 200)) = Focused"
    unfolding detect_mood_sufficient [OF s] by (simp add: w' same_instant_cv)
  from s a b c show ?thesis
    by (simp add: same_instant_facts)
qed

text \<open>
  C6, amended. On an input that passes the data-sufficiency guards, \<open>detect_mood\<close> called
  without a wpm behaves as if called with \<open>(n / 5) / max span_minutes 0.01\<close> when the span
  from the first to the last timestamp is positive, and with 0 when the span is zero (or
  negative); the indicators report that value rounded to one decimal.
\<close>

theorem estimated_wpm:
  "10 \<le> length events \<and> 5 \<le> length (intervals_of events) \<longrightarrow>
   detect_mood events None =
     detect_mood events
       (Some (if span_minutes events > 0
              then (real (length events) / 5) / max (span_minutes events) 0.01
              else 0))
   \<and> indicators (detect_mood events None) ''wpm'' =
       Some (py_round (if span_minutes events > 0
                       then (real (length events) / 5) / max (span_minutes events) 0.01
                       else 0) 1)"
proof (intro impI)
  assume "10 \<le> length events \<and> 5 \<le> length (intervals_of events)"
  then have s: "10 \<le> length events" "5 \<le> length (intervals_of events)"
    by simp_all
  have w: "wpm_used events None =
             (if span_minutes events > 0
              then (real (length events) / 5) / max (span_minutes events) 0.01
              else 0)"
    by (simp add: wpm_used_def Let_def)
  have w': "wpm_used events (Some x) = x" for x
    by (simp add: wpm_used_def)
  show "detect_mood events None =
     detect_mood events
       (Some (if span_minutes events > 0
              then (real (length events) / 5) / max (span_minutes events) 0.01
              else 0))
   \<and> indicators (detect_mood events None) ''wpm'' =
       Some (py_round (if span_minutes events > 0
                       then (real (length events) / 5) / max (span_minutes events) 0.01
                       else 0) 1)"
    unfolding detect_mood_sufficient [OF s] w' w by simp
qed

theorem estimated_wpm_witness:
  "10 \<le> length one_minute_events \<and> 5 \<le> length (intervals_of one_minute_events)
   \<and> span_minutes one_minute_events = 1
   \<and> detect_mood one_minute_events None = detect_mood one_minute_events (Some 2)
   \<and> indicators (detect_mood one_minute_events None) ''wpm'' = Some 2"
proof -
  have r: "py_round 2 (Suc 0) = 2"
    by (simp add: py_round_def Let_def)
  have f: "10 \<le> length one_minute_events \<and> 5 \<le> length (intervals_of one_minute_events)
           \<and> span_minutes one_minute_events = 1"
    by (simp add: one_minute_facts)
  have e: "detect_mood one_minute_events None = detect_mood one_minute_events (Some 2)
        \<and> indicators (detect_mood one_minute_events None) ''wpm'' = Some 2"
    using estimated_wpm [of one_minute_events]
    by (simp (no_asm_use) add: one_minute_facts r)
  from f e show ?thesis
    by blast
qed

section \<open>Properties of the recorder\<close>

lemma on_press_state:
  "snd (on_press t s) =
     s\<lparr>last_keypress_time := Some t, lg_keypress_count := lg_keypress_count s + 1,
       lg_events := lg_events s @ [new_event t s]\<rparr>"
  by (simp add: on_press_def Let_def split: option.splits)

text \<open>
  C9. The event that the keypress handler appends is never both a pause and a burst, and
  it is neither when it has no interval (the first event of a session).
\<close>

theorem pause_burst_exclusive:
  "lg_events (snd (on_press t s)) = lg_events s @ [new_event t s]
   \<and> \<not> (is_pause (new_event t s) \<and> is_burst (new_event t s))
   \<and> (interval (new_event t s) = None \<longrightarrow>
        \<not> is_pause (new_event t s) \<and> \<not> is_burst (new_event t s))
   \<and> (last_keypress_time s = None \<longrightarrow> interval (new_event t s) = None)"
  by (simp add: on_press_state new_event_def Let_def PAUSE_THRESHOLD_def BURST_THRESHOLD_def
        split: option.splits)

theorem pause_burst_exclusive_witness:
  "last_keypress_time (snd (start ''s1'' 0 (init_logger None))) = None
   \<and> lg_events one_key_logger =
       [\<lparr>timestamp = 1000, interval = None, is_pause = False, is_burst = False,
         session_id = Some ''s1''\<rparr>]
   \<and> lg_events (snd (on_press 4000 one_key_logger)) =
       [\<lparr>timestamp = 1000, interval = None, is_pause = False, is_burst = False,
         session_id = Some ''s1''\<rparr>,
        \<lparr>timestamp = 4000, interval = Some 3000, is_pause = True, is_burst = False,
         session_id = Some ''s1''\<rparr>]"
proof -
  have a: "last_keypress_time (snd (start ''s1'' 0 (init_logger None))) = None"
    by (simp add: start_def init_logger_def Let_def)
  have b: "new_event 1000 (snd (start ''s1'' 0 (init_logger None))) =
       \<lparr>timestamp = 1000, interval = None, is_pause = False, is_burst = False,
         session_id = Some ''s1''\<rparr>"
    by (simp add: new_event_def start_def init_logger_def Let_def)
  have c: "lg_events (snd (start ''s1'' 0 (init_logger None))) = []"
    by (simp add: start_def init_logger_def Let_def)
  have d: "lg_events one_key_logger =
       [\<lparr>timestamp = 1000, interval = None, is_pause = False, is_burst = False,
         session_id = Some ''s1''\<rparr>]"
    unfolding one_key_logger_def
    using pause_burst_exclusive [of 1000 "snd (start ''s1'' 0 (init_logger None))"]
    by (simp add: b c)
  have e: "new_event 4000 one_key_logger =
        \<lparr>timestamp = 4000, interval = Some 3000, is_pause = True, is_burst = False,
         session_id = Some ''s1''\<rparr>"
    by (simp add: new_event_def one_key_logger_def on_press_state start_def init_logger_def
          Let_def PAUSE_THRESHOLD_def BURST_THRESHOLD_def)
  have f: "lg_events (snd (on_press 4000 one_key_logger)) = lg_events one_key_logger @
       [\<lparr>timestamp = 4000, interval = Some 3000, is_pause = True, is_burst = False,
         session_id = Some ''s1''\<rparr>]"
    using pause_burst_exclusive [of 4000 one_key_logger]
    by (simp add: e)
  from a d f show ?thesis
    by simp
qed

text \<open>
  C7, as stated, fails: \<open>_on_press\<close> calls the observer with no handler around the call,
  so what the observer raises leaves \<open>_on_press\<close> and reaches its caller, the input
  listener. Here the observer raises on every event.
\<close>

theorem observer_error_propagates_counterexample:
  "fst (on_press 1000 (snd (start ''s1'' 0 (init_logger (Some failing_observer)))))
     = Some CallbackError"
  by (simp add: on_press_def start_def init_logger_def failing_observer_def Let_def)

text \<open>
  C7, amended. When the registered observer raises on the finished event, the event has
  already been appended, the counter incremented and the last-keypress time updated, and
  the error leaves the keypress handler towards the input layer.
\<close>

theorem observer_error_after_writes:
  "on_event_callback s = Some cb \<and> cb (new_event t s) = Some err \<longrightarrow>
   fst (on_press t s) = Some err
   \<and> lg_events (snd (on_press t s)) = lg_events s @ [new_event t s]
   \<and> lg_keypress_count (snd (on_press t s)) = lg_keypress_count s + 1
   \<and> last_keypress_time (snd (on_press t s)) = Some t"
  by (simp add: on_press_def Let_def)

theorem observer_error_after_writes_witness:
  "on_event_callback (snd (start ''s1'' 0 (init_logger (Some failing_observer))))
     = Some failing_observer
   \<and> fst (on_press 1000 (snd (start ''s1'' 0 (init_logger (Some failing_observer)))))
       = Some CallbackError
   \<and> length (lg_events
        (snd (on_press 1000 (snd (start ''s1'' 0 (init_logger (Some failing_observer)))))))
       = 1
   \<and> lg_keypress_count
        (snd (on_press 1000 (snd (start ''s1'' 0 (init_logger (Some failing_observer))))))
       = 1
   \<and> last_keypress_time
        (snd (on_press 1000 (snd (start ''s1'' 0 (init_logger (Some failing_observer))))))
       = Some 1000"
proof -
  have a: "on_event_callback (snd (start ''s1'' 0 (init_logger (Some failing_observer))))
             = Some failing_observer"
    by (simp add: start_def init_logger_def Let_def)
  have b: "lg_events (snd (start ''s1'' 0 (init_logger (Some failing_observer)))) = []"
    and c: "lg_keypress_count (snd (start ''s1'' 0 (init_logger (Some failing_observer)))) = 0"
    by (simp_all add: start_def init_logger_def Let_def)
  show ?thesis
    using observer_error_after_writes
            [of "snd (start ''s1'' 0 (init_logger (Some failing_observer)))"
                failing_observer 1000 CallbackError]
    by (simp add: a b c failing_observer_def)
qed

lemma one_key_logger_eq:
  "one_key_logger =
      \<lparr>is_running = True, lg_session_id = Some ''s1'', last_keypress_time = Some 1000,
       lg_keypress_count = 1, session_start_time = Some 0, on_event_callback = None,
       lg_events = [\<lparr>timestamp = 1000, interval = None, is_pause = False,
                     is_burst = False, session_id = Some ''s1''\<rparr>]\<rparr>"
  by (simp add: one_key_logger_def on_press_def start_def init_logger_def new_event_def
        Let_def)

lemma restarted_logger_eq:
  "restarted_logger =
      \<lparr>is_running = True, lg_session_id = Some ''s2'', last_keypress_time = None,
       lg_keypress_count = 0, session_start_time = Some 60000, on_event_callback = None,
       lg_events = []\<rparr>"
  by (simp add: restarted_logger_def one_key_logger_eq stop_def start_def Let_def)

lemma start_while_running: "is_running s \<Longrightarrow> snd (start uuid now s) = s"
  by (simp add: start_def)

lemma stop_keeps_session:
  "snd (stop now s) = s\<lparr>is_running := False\<rparr>"
  by (cases "is_running s") (simp_all add: stop_def Let_def split: option.splits)

text \<open>
  C5, as stated, fails twice. A running recorder with at least one event recomputes the
  elapsed time from the clock on every call, so two calls one minute apart, with no
  keypress between them and the recorder Running at both, differ in \<open>wpm\<close> and
  \<open>session_duration\<close>. And a recorder that is stopped and started again between the two
  calls is Running at both, has seen no keypress in between, and answers the second call
  with the all-zero defaults of the new session.
\<close>

theorem current_stats_clock_counterexample:
  "is_running one_key_logger
   \<and> get_current_stats 60000 one_key_logger =
       Inr \<lparr>st_wpm = 0.2, st_avg_interval = 0, st_pause_count = 0, st_burst_count = 0,
            st_keypress_count = 1, st_session_duration = 60\<rparr>
   \<and> get_current_stats 120000 one_key_logger =
       Inr \<lparr>st_wpm = 0.1, st_avg_interval = 0, st_pause_count = 0, st_burst_count = 0,
            st_keypress_count = 1, st_session_duration = 120\<rparr>
   \<and> get_current_stats 60000 one_key_logger \<noteq> get_current_stats 120000 one_key_logger
   \<and> is_running restarted_logger
   \<and> get_current_stats 60000 restarted_logger =
       Inr \<lparr>st_wpm = 0, st_avg_interval = 0, st_pause_count = 0, st_burst_count = 0,
            st_keypress_count = 0, st_session_duration = 0\<rparr>
   \<and> get_current_stats 60000 one_key_logger \<noteq> get_current_stats 60000 restarted_logger"
proof -
  have r: "py_round (1 / 5) 1 = 1 / 5" "py_round (1 / 10) 1 = 1 / 10"
    "py_round 0 1 = 0" "py_round 60 1 = 60" "py_round 120 1 = 120"
    by (simp_all add: py_round_def Let_def)
  have a: "get_current_stats 60000 one_key_logger =
       Inr \<lparr>st_wpm = 0.2, st_avg_interval = 0, st_pause_count = 0, st_burst_count = 0,
            st_keypress_count = 1, st_session_duration = 60\<rparr>"
    using r
    by (simp add: one_key_logger_eq get_current_stats_def Let_def intervals_of_simps
          count_where_def)
  have b: "get_current_stats 120000 one_key_logger =
       Inr \<lparr>st_wpm = 0.1, st_avg_interval = 0, st_pause_count = 0, st_burst_count = 0,
            st_keypress_count = 1, st_session_duration = 120\<rparr>"
    using r
    by (simp add: one_key_logger_eq get_current_stats_def Let_def intervals_of_simps
          count_where_def)
  have c: "is_running one_key_logger"
    by (simp add: one_key_logger_eq)
  have d: "is_running restarted_logger"
    by (simp add: restarted_logger_eq)
  have e: "get_current_stats 60000 restarted_logger =
       Inr \<lparr>st_wpm = 0, st_avg_interval = 0, st_pause_count = 0, st_burst_count = 0,
            st_keypress_count = 0, st_session_duration = 0\<rparr>"
    by (simp add: restarted_logger_eq get_current_stats_def)
  show ?thesis
    unfolding a b e using c d by simp
qed

text \<open>
  C5, amended. Take two calls of the current-stats operation with no keypress between
  them, the recorder in the same Running-or-Stopped state at both and in the same
  session (no new session was started in between, so the event buffer, the keypress
  counter and the session start time are those of the first call); the clock readings
  \<open>t1\<close> and \<open>t2\<close> may differ. The two results agree on \<open>avg_interval\<close>, \<open>pause_count\<close>,
  \<open>burst_count\<close> and \<open>keypress_count\<close>; they agree on every field when the recorder is
  Stopped or has no event yet, or when both calls read the same clock value. While
  Running with events, \<open>wpm\<close> and \<open>session_duration\<close> follow the clock.
\<close>

theorem current_stats_repeatable:
  "is_running s2 = is_running s1 \<and> lg_events s2 = lg_events s1
   \<and> lg_keypress_count s2 = lg_keypress_count s1
   \<and> session_start_time s2 = session_start_time s1
   \<and> (session_start_time s1 \<noteq> None \<or> \<not> is_running s1 \<or> lg_events s1 = []) \<longrightarrow>
   (\<exists>r1 r2. get_current_stats t1 s1 = Inr r1 \<and> get_current_stats t2 s2 = Inr r2
      \<and> st_avg_interval r1 = st_avg_interval r2
      \<and> st_pause_count r1 = st_pause_count r2
      \<and> st_burst_count r1 = st_burst_count r2
      \<and> st_keypress_count r1 = st_keypress_count r2
      \<and> (\<not> is_running s1 \<or> lg_events s1 = [] \<or> t1 = t2 \<longrightarrow> r1 = r2))"
  by (auto simp add: get_current_stats_def Let_def split: option.splits)

theorem current_stats_repeatable_witness:
  "is_running (snd (start ''s3'' 90000 one_key_logger)) = is_running one_key_logger
   \<and> lg_events (snd (start ''s3'' 90000 one_key_logger)) = lg_events one_key_logger
   \<and> session_start_time one_key_logger \<noteq> None
   \<and> (\<exists>r1 r2. get_current_stats 60000 one_key_logger = Inr r1
        \<and> get_current_stats 120000 (snd (start ''s3'' 90000 one_key_logger)) = Inr r2
        \<and> st_avg_interval r1 = st_avg_interval r2
        \<and> st_pause_count r1 = st_pause_count r2
        \<and> st_burst_count r1 = st_burst_count r2
        \<and> st_keypress_count r1 = st_keypress_count r2)
   \<and> \<not> is_running (snd (stop 60000 one_key_logger))
   \<and> get_current_stats 60000 (snd (stop 60000 one_key_logger))
       = get_current_stats 120000 (snd (stop 60000 one_key_logger))"
proof -
  have run: "is_running one_key_logger"
    by (simp add: one_key_logger_eq)
  then have same: "snd (start ''s3'' 90000 one_key_logger) = one_key_logger"
    by (rule start_while_running)
  have a: "session_start_time one_key_logger \<noteq> None"
    by (simp add: one_key_logger_eq)
  have b: "\<not> is_running (snd (stop 60000 one_key_logger))"
    by (simp add: stop_keeps_session)
  from a have c: "\<exists>r1 r2. get_current_stats 60000 one_key_logger = Inr r1
        \<and> get_current_stats 120000 (snd (start ''s3'' 90000 one_key_logger)) = Inr r2
        \<and> st_avg_interval r1 = st_avg_interval r2
        \<and> st_pause_count r1 = st_pause_count r2
        \<and> st_burst_count r1 = st_burst_count r2
        \<and> st_keypress_count r1 = st_keypress_count r2"
    using current_stats_repeatable
            [of "snd (start ''s3'' 90000 one_key_logger)" one_key_logger 60000 120000]
    unfolding same by blast
  from b have d: "get_current_stats 60000 (snd (stop 60000 one_key_logger))
                  = get_current_stats 120000 (snd (stop 60000 one_key_logger))"
    using current_stats_repeatable
            [of "snd (stop 60000 one_key_logger)" "snd (stop 60000 one_key_logger)"
                60000 120000]
    by auto
  from a b c d show ?thesis
    unfolding same by blast
qed

section \<open>Properties of the mood timeline\<close>

lemma py_slice_window:
  "i + w \<le> length xs \<Longrightarrow> py_slice xs (int i) (int i + int w) = take w (drop i xs)"
  by (simp add: py_slice_def Let_def min_def)

lemma window_count_step:
  fixes n w i st :: nat
  assumes "0 < st" and "i + w \<le> n"
  shows "(if i + st + w \<le> n then (n - w - (i + st)) div st + 1 else 0) = (n - w - i) div st"
proof (cases "i + st + w \<le> n")
  case True
  then have "st \<le> n - w - i"
    by simp
  then have "(n - w - i) div st = Suc ((n - w - i - st) div st)"
    using assms(1) by (simp add: le_div_geq)
  moreover have "n - w - (i + st) = n - w - i - st"
    by simp
  ultimately show ?thesis
    using True by simp
next
  case False
  then have "n - w - i < st"
    using assms(2) by simp
  then show ?thesis
    using False by simp
qed

lemma timeline_loop_windows:
  fixes w :: nat
  assumes w: "0 < w"
  shows "(if i + w \<le> length events
          then (length events - w - i) div max 1 (w div 2) + 1 else 0) = c \<Longrightarrow>
         timeline_loop events (int w) (int i) acc =
           Inr (acc @ map (\<lambda>k. window_point (take w (drop (i + k * max 1 (w div 2)) events)))
                        [0..<c])"
proof (induction c arbitrary: i acc)
  case 0
  then have "\<not> i + w \<le> length events"
    by (simp split: if_splits)
  then have "\<not> int i < int (length events) - int w + 1"
    by linarith
  then show ?case
    by (subst timeline_loop.simps) simp
next
  case (Suc c)
  let ?st = "max 1 (w div 2)"
  from Suc.prems have le: "i + w \<le> length events"
    by (simp split: if_splits)
  with Suc.prems have c: "(length events - w - i) div ?st = c"
    by simp
  have st: "0 < ?st"
    by simp
  have next_count: "(if i + ?st + w \<le> length events
                     then (length events - w - (i + ?st)) div ?st + 1 else 0) = c"
    using window_count_step [OF st le] c by simp
  have sl: "py_slice events (int i) (int i + int w) = take w (drop i events)"
    using le by (rule py_slice_window)
  have ne: "take w (drop i events) \<noteq> []"
    using le w by (cases "drop i events") auto
  have cond: "int i < int (length events) - int w + 1"
    using le by linarith
  have step_int: "int i + max 1 (int w div 2) = int (i + ?st)"
    by (simp add: zdiv_int max_def)
  have "timeline_loop events (int w) (int i) acc =
          timeline_loop events (int w) (int (i + ?st))
            (acc @ [window_point (take w (drop i events))])"
    by (subst timeline_loop.simps) (simp only: cond sl ne step_int if_True if_False)
  also have "\<dots> = Inr ((acc @ [window_point (take w (drop i events))]) @
      map (\<lambda>k. window_point (take w (drop (i + ?st + k * ?st) events))) [0..<c])"
    using Suc.IH [OF next_count] .
  also have "(acc @ [window_point (take w (drop i events))]) @
      map (\<lambda>k. window_point (take w (drop (i + ?st + k * ?st) events))) [0..<c] =
      acc @ map (\<lambda>k. window_point (take w (drop (i + k * ?st) events))) [0..<Suc c]"
  proof -
    have "map (\<lambda>k. window_point (take w (drop (i + k * ?st) events))) [0..<Suc c] =
          window_point (take w (drop i events)) #
          map (\<lambda>k. window_point (take w (drop (i + k * ?st) events))) (map Suc [0..<c])"
      by (simp only: upt_conv_Cons [of 0 "Suc c"] map_Suc_upt) simp
    also have "map (\<lambda>k. window_point (take w (drop (i + k * ?st) events))) (map Suc [0..<c]) =
          map (\<lambda>k. window_point (take w (drop (i + ?st + k * ?st) events))) [0..<c]"
      by (simp add: comp_def add.assoc)
    finally show ?thesis
      by simp
  qed
  finally show ?case .
qed

lemma window_in_range:
  fixes n w st k :: nat
  assumes "0 < st" and "w \<le> n" and "k < (n - w) div st + 1"
  shows "k * st + w \<le> n"
proof -
  from assms(3) have "k \<le> (n - w) div st"
    by simp
  then have "k * st \<le> (n - w) div st * st"
    by (rule mult_le_mono1)
  also have "\<dots> \<le> n - w"
    by (simp add: div_times_less_eq_dividend)
  finally show ?thesis
    using assms(2) by simp
qed

lemma window_count_maximal:
  fixes n w st :: nat
  assumes "0 < st"
  shows "n < ((n - w) div st + 1) * st + w"
proof -
  have "n - w < ((n - w) div st + 1) * st"
    using assms by (metis Suc_eq_plus1 dividend_less_div_times mult.commute mult_Suc_right add.commute)
  then show ?thesis
    by simp
qed

text \<open>
  C4, as stated, fails for a window size of 0 (or less): every list is at least as long,
  the loop builds an empty window and \<open>window[-1]\<close> raises IndexError, so no timeline is
  returned.
\<close>

theorem mood_timeline_empty_window_counterexample:
  "int (length [steady]) \<ge> 0 \<and> calculate_mood_timeline [steady] 0 = Inl IndexError"
  by (simp add: calculate_mood_timeline_def py_slice_def timeline_loop.simps [of _ _ 0])

text \<open>
  C4, amended. A list shorter than \<open>window_size\<close> gives exactly one point, whose mood,
  energy score and wpm are those of \<open>analyze_session\<close> on the whole list. For a window
  size \<open>w\<close> of at least 1 and a list of at least \<open>w\<close> events, the timeline has one point per
  window \<open>events[k * step : k * step + w]\<close>, \<open>step = max 1 (w div 2)\<close>, for
  \<open>k = 0, 1, ...\<close> as long as the window fits: every window has exactly \<open>w\<close> events, the
  point carries the timestamp of the window's last event and the analysis of the window,
  and the events after the last full window contribute nothing.
\<close>

theorem mood_timeline_windows:
  "(int (length events) < window_size \<longrightarrow>
      (\<exists>p. calculate_mood_timeline events window_size = Inr [p]
          \<and> tp_mood p = an_mood (analyze_session events)
          \<and> tp_energy_score p = energy_score (analyze_session events)
          \<and> tp_wpm p = an_wpm (analyze_session events)))
   \<and> (0 < w \<and> w \<le> length events \<longrightarrow>
        calculate_mood_timeline events (int w) =
          Inr (map (\<lambda>k. window_point (take w (drop (k * stride w) events)))
                 [0..<(length events - w) div stride w + 1])
        \<and> length events < ((length events - w) div stride w + 1) * stride w + w
        \<and> (\<forall>k<(length events - w) div stride w + 1.
              k * stride w + w \<le> length events
              \<and> length (take w (drop (k * stride w) events)) = w
              \<and> tp_timestamp (window_point (take w (drop (k * stride w) events)))
                  = timestamp (events ! (k * stride w + w - 1))
              \<and> tp_mood (window_point (take w (drop (k * stride w) events)))
                  = an_mood (analyze_session (take w (drop (k * stride w) events)))
              \<and> tp_energy_score (window_point (take w (drop (k * stride w) events)))
                  = energy_score (analyze_session (take w (drop (k * stride w) events)))
              \<and> tp_wpm (window_point (take w (drop (k * stride w) events)))
                  = an_wpm (analyze_session (take w (drop (k * stride w) events)))))"
proof (intro conjI impI allI)
  assume "int (length events) < window_size"
  then show "\<exists>p. calculate_mood_timeline events window_size = Inr [p]
          \<and> tp_mood p = an_mood (analyze_session events)
          \<and> tp_energy_score p = energy_score (analyze_session events)
          \<and> tp_wpm p = an_wpm (analyze_session events)"
    by (simp add: calculate_mood_timeline_def Let_def)
next
  assume a: "0 < w \<and> w \<le> length events"
  then have g: "\<not> int (length events) < int w"
    by simp
  have "timeline_loop events (int w) (int 0) [] =
          Inr ([] @ map (\<lambda>k. window_point (take w (drop (0 + k * max 1 (w div 2)) events)))
                 [0..<(length events - w) div max 1 (w div 2) + 1])"
    using a by (intro timeline_loop_windows) simp_all
  then show "calculate_mood_timeline events (int w) =
          Inr (map (\<lambda>k. window_point (take w (drop (k * stride w) events)))
                 [0..<(length events - w) div stride w + 1])"
    using g by (simp add: calculate_mood_timeline_def stride_def)
next
  assume a: "0 < w \<and> w \<le> length events"
  show "length events < ((length events - w) div stride w + 1) * stride w + w"
    by (rule window_count_maximal) (simp add: stride_def)
next
  fix k
  assume a: "0 < w \<and> w \<le> length events"
    and k: "k < (length events - w) div stride w + 1"
  have st: "0 < stride w"
    by (simp add: stride_def)
  from a k show r: "k * stride w + w \<le> length events"
    by (intro window_in_range [OF st]) simp_all
  then show len: "length (take w (drop (k * stride w) events)) = w"
    by simp
  have "last (take w (drop (k * stride w) events)) = events ! (k * stride w + w - 1)"
  proof -
    have ne: "take w (drop (k * stride w) events) \<noteq> []"
      using len a by auto
    have "last (take w (drop (k * stride w) events)) =
            take w (drop (k * stride w) events) ! (w - 1)"
      using ne len by (simp add: last_conv_nth)
    also have "\<dots> = events ! (k * stride w + (w - 1))"
      using a r by simp
    finally show ?thesis
      using a by simp
  qed
  then show "tp_timestamp (window_point (take w (drop (k * stride w) events)))
                  = timestamp (events ! (k * stride w + w - 1))"
    by (simp add: window_point_def Let_def)
  show "tp_mood (window_point (take w (drop (k * stride w) events)))
                  = an_mood (analyze_session (take w (drop (k * stride w) events)))"
    by (simp add: window_point_def Let_def)
  show "tp_energy_score (window_point (take w (drop (k * stride w) events)))
                  = energy_score (analyze_session (take w (drop (k * stride w) events)))"
    by (simp add: window_point_def Let_def)
  show "tp_wpm (window_point (take w (drop (k * stride w) events)))
                  = an_wpm (analyze_session (take w (drop (k * stride w) events)))"
    by (simp add: window_point_def Let_def)
qed

theorem mood_timeline_windows_witness:
  "int (length (ramp 3)) < 4
   \<and> (\<exists>p. calculate_mood_timeline (ramp 3) 4 = Inr [p]
          \<and> tp_mood p = an_mood (analyze_session (ramp 3))
          \<and> tp_energy_score p = energy_score (analyze_session (ramp 3))
          \<and> tp_wpm p = an_wpm (analyze_session (ramp 3)))
   \<and> (4::nat) \<le> length (ramp 7)
   \<and> calculate_mood_timeline (ramp 7) 4 =
       Inr [window_point (take 4 (ramp 7)), window_point (take 4 (drop 2 (ramp 7)))]
   \<and> tp_timestamp (window_point (take 4 (ramp 7))) = 300
   \<and> tp_timestamp (window_point (take 4 (drop 2 (ramp 7)))) = 500"
proof -
  have len: "length (ramp n) = n" for n
    by (simp add: ramp_def)
  have st: "stride 4 = 2"
    by (simp add: stride_def)
  have a: "int (length (ramp 3)) < 4"
    by (simp add: len)
  have b: "\<exists>p. calculate_mood_timeline (ramp 3) 4 = Inr [p]
          \<and> tp_mood p = an_mood (analyze_session (ramp 3))
          \<and> tp_energy_score p = energy_score (analyze_session (ramp 3))
          \<and> tp_wpm p = an_wpm (analyze_session (ramp 3))"
    using mood_timeline_windows [of "ramp 3" 4 0] a by blast
  have h: "0 < (4::nat) \<and> 4 \<le> length (ramp 7)"
    by (simp add: len)
  note t = mood_timeline_windows [of "ramp 7" 0 4, THEN conjunct2, rule_format, OF h]
  have up: "[0..<2] = [0, Suc 0]"
    by (simp add: upt_conv_Cons)
  have c: "calculate_mood_timeline (ramp 7) 4 =
       Inr [window_point (take 4 (ramp 7)), window_point (take 4 (drop 2 (ramp 7)))]"
    using t [THEN conjunct1] by (simp add: len st up)
  have k0: "(0::nat) < (length (ramp 7) - 4) div stride 4 + 1"
    by simp
  have k1: "(1::nat) < (length (ramp 7) - 4) div stride 4 + 1"
    by (simp add: len st)
  have d0: "tp_timestamp (window_point (take 4 (ramp 7))) = 300"
    using t [THEN conjunct2, THEN conjunct2, rule_format, OF k0]
    by (simp add: ramp_def steady_def)
  have d1: "tp_timestamp (window_point (take 4 (drop 2 (ramp 7)))) = 500"
    using t [THEN conjunct2, THEN conjunct2, rule_format, OF k1]
    by (simp add: st ramp_def steady_def)
  from a b h c d0 d1 show ?thesis
    by blast
qed

section \<open>Properties of the weekly rhythm\<close>

lemma py_index_less: "py_index n i = Some k \<Longrightarrow> k < n"
  by (auto simp add: py_index_def split: if_splits)

lemma py_index_valid: "0 \<le> i \<Longrightarrow> i < int n \<Longrightarrow> py_index n i = Some (nat i)"
  by (simp add: py_index_def)

lemma is_matrix_zero: "is_matrix zero_matrix"
  by (simp add: is_matrix_def zero_matrix_def)

lemma is_matrix_row: "is_matrix m \<Longrightarrow> d < 7 \<Longrightarrow> length (m ! d) = 24"
  by (simp add: is_matrix_def)

lemma is_matrix_update:
  "is_matrix m \<Longrightarrow> d < 7 \<Longrightarrow> is_matrix (m[d := (m ! d)[h := v]])"
  by (auto simp add: is_matrix_def dest!: set_update_subset_insert [THEN subsetD])

lemma valid_stat_nat:
  "valid_stat s \<Longrightarrow> nat (day_of_week s) < 7 \<and> nat (hour s) < 24"
  unfolding valid_stat_def by linarith

lemma set_cell_valid:
  assumes "is_matrix m" and "valid_stat s"
  shows "set_cell m (day_of_week s) (hour s) v =
           Inr (m[nat (day_of_week s) := (m ! nat (day_of_week s))[nat (hour s) := v]])"
proof -
  from assms have d: "py_index (length m) (day_of_week s) = Some (nat (day_of_week s))"
    by (intro py_index_valid) (simp_all add: is_matrix_def valid_stat_def)
  from assms have "nat (day_of_week s) < 7"
    by (simp add: valid_stat_nat)
  with assms have "length (m ! nat (day_of_week s)) = 24"
    by (intro is_matrix_row)
  with assms have h: "py_index (length (m ! nat (day_of_week s))) (hour s) = Some (nat (hour s))"
    by (intro py_index_valid) (simp_all add: valid_stat_def)
  show ?thesis
    by (simp add: set_cell_def d h)
qed

lemma set_cell_zero:
  assumes "set_cell zero_matrix day hr 0 = Inr m"
  shows "m = zero_matrix"
proof -
  from assms obtain d h where d: "py_index (length zero_matrix) day = Some d"
    and h: "py_index (length (zero_matrix ! d)) hr = Some h"
    and m: "m = zero_matrix[d := (zero_matrix ! d)[h := 0]]"
    by (auto simp add: set_cell_def split: option.splits)
  from d have d7: "d < 7"
    by (auto dest: py_index_less simp add: zero_matrix_def)
  then have row: "zero_matrix ! d = replicate 24 0"
    by (simp add: zero_matrix_def)
  with h have "h < 24"
    by (auto dest: py_index_less)
  then have "(replicate 24 (0::int))[h := 0] = replicate 24 0"
    by (metis list_update_id nth_replicate)
  with row have "(zero_matrix ! d)[h := 0] = zero_matrix ! d"
    by simp
  with m show ?thesis
    by simp
qed

lemma fill_matrix_zero:
  "\<forall>s\<in>set stats. keypress_count s = 0 \<Longrightarrow> fill_matrix zero_matrix stats = Inr m \<Longrightarrow>
   m = zero_matrix"
proof (induction stats)
  case Nil
  then show ?case by simp
next
  case (Cons s stats)
  from Cons.prems obtain m' where
    c: "set_cell zero_matrix (day_of_week s) (hour s) 0 = Inr m'"
    and f: "fill_matrix m' stats = Inr m"
    by (auto split: sum.splits)
  from c have "m' = zero_matrix"
    by (rule set_cell_zero)
  with f Cons show ?case
    by simp
qed

lemma fill_matrix_valid:
  "is_matrix m \<Longrightarrow> \<forall>s\<in>set stats. valid_stat s \<Longrightarrow>
   \<exists>m'. fill_matrix m stats = Inr m' \<and> is_matrix m'"
proof (induction stats arbitrary: m)
  case Nil
  then show ?case by simp
next
  case (Cons s stats)
  let ?m = "m[nat (day_of_week s) := (m ! nat (day_of_week s))[nat (hour s) := keypress_count s]]"
  from Cons.prems have c: "set_cell m (day_of_week s) (hour s) (keypress_count s) = Inr ?m"
    by (intro set_cell_valid) simp_all
  from Cons.prems have "is_matrix ?m"
    by (intro is_matrix_update) (simp_all add: valid_stat_nat)
  with Cons have "\<exists>m'. fill_matrix ?m stats = Inr m' \<and> is_matrix m'"
    by simp
  with c show ?case
    by simp
qed

lemma fill_matrix_append:
  "fill_matrix m (xs @ ys) =
     (case fill_matrix m xs of Inl e \<Rightarrow> Inl e | Inr m' \<Rightarrow> fill_matrix m' ys)"
  by (induction xs arbitrary: m) (simp_all split: sum.splits)

lemma fill_matrix_untouched:
  "is_matrix m \<Longrightarrow> \<forall>s\<in>set stats. valid_stat s \<Longrightarrow>
   \<forall>s\<in>set stats. (day_of_week s, hour s) \<noteq> (int d, int h) \<Longrightarrow>
   fill_matrix m stats = Inr m' \<Longrightarrow> d < 7 \<Longrightarrow> h < 24 \<Longrightarrow> m' ! d ! h = m ! d ! h"
proof (induction stats arbitrary: m)
  case Nil
  then show ?case by simp
next
  case (Cons s stats)
  let ?d = "nat (day_of_week s)" and ?h = "nat (hour s)"
  let ?m = "m[?d := (m ! ?d)[?h := keypress_count s]]"
  from Cons.prems have v: "valid_stat s"
    by simp
  from Cons.prems have c: "set_cell m (day_of_week s) (hour s) (keypress_count s) = Inr ?m"
    by (intro set_cell_valid) simp_all
  with Cons.prems have f: "fill_matrix ?m stats = Inr m'"
    by simp
  from Cons.prems v have sh: "is_matrix ?m"
    by (intro is_matrix_update) (simp_all add: valid_stat_nat)
  from Cons.prems have ne: "(day_of_week s, hour s) \<noteq> (int d, int h)"
    by simp
  have "m' ! d ! h = ?m ! d ! h"
    using Cons.IH [OF sh _ _ f] Cons.prems by simp
  also have "\<dots> = m ! d ! h"
  proof (cases "?d = d")
    case True
    with ne v have "?h \<noteq> h"
      by (auto simp add: valid_stat_def)
    with True Cons.prems show ?thesis
      by (simp add: is_matrix_def)
  next
    case False
    then show ?thesis
      by simp
  qed
  finally show ?case .
qed

lemma find_peak_nonpositive:
  "\<forall>(d, h)\<in>set cells. m ! d ! h \<le> 0 \<Longrightarrow> foldl (scan_cell m) (0, 0, 0) cells = (0, 0, 0)"
  by (induction cells) (auto simp add: scan_cell_def)

lemma find_peak_zero: "find_peak zero_matrix = (0, 0, 0)"
  unfolding find_peak_def
  by (rule find_peak_nonpositive) (auto simp add: zero_matrix_def)

lemma daily_totals_zero: "map sum_list zero_matrix = replicate 7 0"
  by (simp add: zero_matrix_def sum_list_replicate)

lemma weekly_rhythm_all_zero:
  assumes "stats \<noteq> []" and "\<forall>s\<in>set stats. keypress_count s = 0"
    and "get_weekly_rhythm stats = Inr r"
  shows "r = \<lparr>peak_hour = Some 0, peak_day = Some 0, activity_matrix = zero_matrix,
              insights = []\<rparr>"
proof -
  from assms(1,3) obtain m where f: "fill_matrix zero_matrix stats = Inr m"
    by (auto simp add: get_weekly_rhythm_def split: sum.splits)
  with assms(2) have m: "m = zero_matrix"
    by (intro fill_matrix_zero)
  from assms(1,3) f show ?thesis
    by (simp add: get_weekly_rhythm_def m find_peak_zero daily_totals_zero)
qed

lemma weekly_rhythm_matrix:
  assumes "stats \<noteq> []" and "fill_matrix zero_matrix stats = Inr m"
  shows "\<exists>res. get_weekly_rhythm stats = Inr res \<and> activity_matrix res = m"
proof -
  obtain a ph pd where "find_peak m = (a, ph, pd)"
    by (cases "find_peak m") auto
  with assms show ?thesis
    by (simp add: get_weekly_rhythm_def Let_def)
qed

text \<open>
  C8, as stated, fails on a non-empty list whose counts are all 0: only the empty list
  takes the early return with the null fields; here the peak search runs on the zero
  matrix and its initial values \<open>peak_hour = 0\<close>, \<open>peak_day = 0\<close> are returned with the
  7 by 24 zero matrix.
\<close>

theorem weekly_rhythm_zero_counts_counterexample:
  "get_weekly_rhythm [\<lparr>day_of_week = 1, hour = 9, keypress_count = 0\<rparr>] =
     Inr \<lparr>peak_hour = Some 0, peak_day = Some 0, activity_matrix = zero_matrix,
          insights = []\<rparr>"
proof -
  have v: "\<forall>s\<in>set [\<lparr>day_of_week = 1, hour = 9, keypress_count = 0\<rparr>]. valid_stat s"
    by (simp add: valid_stat_def)
  obtain m where "fill_matrix zero_matrix [\<lparr>day_of_week = 1, hour = 9, keypress_count = 0\<rparr>]
                    = Inr m"
    using fill_matrix_valid [OF is_matrix_zero v] by blast
  then obtain res where
    r: "get_weekly_rhythm [\<lparr>day_of_week = 1, hour = 9, keypress_count = 0\<rparr>] = Inr res"
    using weekly_rhythm_matrix by blast
  then have "res = \<lparr>peak_hour = Some 0, peak_day = Some 0, activity_matrix = zero_matrix,
                     insights = []\<rparr>"
    by (intro weekly_rhythm_all_zero [OF _ _ r]) simp_all
  with r show ?thesis
    by simp
qed

text \<open>
  C8, amended. \<open>get_weekly_rhythm\<close> emits insight strings only when some record has a
  non-zero \<open>keypress_count\<close>. On the empty list it returns the null fields (no peak hour,
  no peak day, empty matrix, no insights). On a non-empty list of records (day 0..6,
  hour 0..23) whose counts are all 0 it returns no insights, but peak hour 0, peak day 0
  and the 7 by 24 zero matrix.
\<close>

theorem weekly_rhythm_no_activity:
  "get_weekly_rhythm [] =
     Inr \<lparr>peak_hour = None, peak_day = None, activity_matrix = [], insights = []\<rparr>
   \<and> (stats \<noteq> [] \<and> (\<forall>s\<in>set stats. valid_stat s) \<and> (\<forall>s\<in>set stats. keypress_count s = 0)
        \<longrightarrow> get_weekly_rhythm stats =
              Inr \<lparr>peak_hour = Some 0, peak_day = Some 0, activity_matrix = zero_matrix,
                   insights = []\<rparr>)
   \<and> (get_weekly_rhythm stats = Inr r \<and> insights r \<noteq> []
        \<longrightarrow> stats \<noteq> [] \<and> (\<exists>s\<in>set stats. keypress_count s \<noteq> 0))"
proof (intro conjI impI)
  show "get_weekly_rhythm [] =
     Inr \<lparr>peak_hour = None, peak_day = None, activity_matrix = [], insights = []\<rparr>"
    by (simp add: get_weekly_rhythm_def)
next
  assume a: "stats \<noteq> [] \<and> (\<forall>s\<in>set stats. valid_stat s)
             \<and> (\<forall>s\<in>set stats. keypress_count s = 0)"
  then obtain m where "fill_matrix zero_matrix stats = Inr m"
    using fill_matrix_valid [OF is_matrix_zero] by blast
  with a obtain res where r: "get_weekly_rhythm stats = Inr res"
    using weekly_rhythm_matrix by blast
  with a have "res = \<lparr>peak_hour = Some 0, peak_day = Some 0, activity_matrix = zero_matrix,
                     insights = []\<rparr>"
    by (intro weekly_rhythm_all_zero [of stats]) simp_all
  with r show "get_weekly_rhythm stats =
              Inr \<lparr>peak_hour = Some 0, peak_day = Some 0, activity_matrix = zero_matrix,
                   insights = []\<rparr>"
    by simp
next
  assume a: "get_weekly_rhythm stats = Inr r \<and> insights r \<noteq> []"
  then show "stats \<noteq> []"
    by (auto simp add: get_weekly_rhythm_def)
  show "\<exists>s\<in>set stats. keypress_count s \<noteq> 0"
  proof (rule ccontr)
    assume "\<not> (\<exists>s\<in>set stats. keypress_count s \<noteq> 0)"
    then have z: "\<forall>s\<in>set stats. keypress_count s = 0"
      by simp
    show False
    proof (cases "stats = []")
      case True
      with a show False
        by (auto simp add: get_weekly_rhythm_def)
    next
      case False
      from a have "get_weekly_rhythm stats = Inr r"
        by (rule conjunct1)
      with False z have "r = \<lparr>peak_hour = Some 0, peak_day = Some 0,
                          activity_matrix = zero_matrix, insights = []\<rparr>"
        by (rule weekly_rhythm_all_zero)
      with a show False
        by simp
    qed
  qed
qed

lemma monday_nine:
  "get_weekly_rhythm [\<lparr>day_of_week = 1, hour = 9, keypress_count = 120\<rparr>] =
     Inr \<lparr>peak_hour = Some 9, peak_day = Some 1,
          activity_matrix = zero_matrix[1 := (zero_matrix ! 1)[9 := 120]],
          insights = [''Peak activity: Monday at 9:00'', ''Most active day: Monday'']\<rparr>"
  by code_simp

theorem weekly_rhythm_no_activity_witness:
  "get_weekly_rhythm
     [\<lparr>day_of_week = 2, hour = 14, keypress_count = 0\<rparr>,
      \<lparr>day_of_week = 5, hour = 3, keypress_count = 0\<rparr>] =
     Inr \<lparr>peak_hour = Some 0, peak_day = Some 0, activity_matrix = zero_matrix,
          insights = []\<rparr>
   \<and> (\<exists>r. get_weekly_rhythm [\<lparr>day_of_week = 1, hour = 9, keypress_count = 120\<rparr>] = Inr r
          \<and> insights r \<noteq> [])
   \<and> (\<exists>s\<in>set [\<lparr>day_of_week = 1, hour = 9, keypress_count = 120\<rparr>]. keypress_count s \<noteq> 0)"
proof -
  have a: "get_weekly_rhythm
     [\<lparr>day_of_week = 2, hour = 14, keypress_count = 0\<rparr>,
      \<lparr>day_of_week = 5, hour = 3, keypress_count = 0\<rparr>] =
     Inr \<lparr>peak_hour = Some 0, peak_day = Some 0, activity_matrix = zero_matrix,
          insights = []\<rparr>"
    using weekly_rhythm_no_activity
            [of "[\<lparr>day_of_week = 2, hour = 14, keypress_count = 0\<rparr>,
                  \<lparr>day_of_week = 5, hour = 3, keypress_count = 0\<rparr>]"]
    by (simp add: valid_stat_def)
  have b: "\<exists>r. get_weekly_rhythm [\<lparr>day_of_week = 1, hour = 9, keypress_count = 120\<rparr>] = Inr r
          \<and> insights r \<noteq> []"
    by (simp add: monday_nine)
  then obtain r where
    r: "get_weekly_rhythm [\<lparr>day_of_week = 1, hour = 9, keypress_count = 120\<rparr>] = Inr r
        \<and> insights r \<noteq> []"
    by blast
  have c: "\<exists>s\<in>set [\<lparr>day_of_week = 1, hour = 9, keypress_count = 120\<rparr>]. keypress_count s \<noteq> 0"
    using weekly_rhythm_no_activity
            [of "[\<lparr>day_of_week = 1, hour = 9, keypress_count = 120\<rparr>]" r] r
    by blast
  from a b c show ?thesis
    by blast
qed

text \<open>
  C10. For records in range (day 0..6, hour 0..23), the matrix cell of a
  \<open>(day_of_week, hour)\<close> pair holds the \<open>keypress_count\<close> of the last record of the list
  with that pair: a later record overwrites an earlier one, the counts are not added.
  Here \<open>r\<close> is any record after which (\<open>post\<close>) no record has the same pair.
\<close>

theorem weekly_rhythm_last_record_wins:
  "(\<forall>s\<in>set (pre @ r # post). valid_stat s)
   \<and> (\<forall>s\<in>set post. (day_of_week s, hour s) \<noteq> (day_of_week r, hour r))
   \<longrightarrow> (\<exists>res. get_weekly_rhythm (pre @ r # post) = Inr res
          \<and> activity_matrix res ! nat (day_of_week r) ! nat (hour r) = keypress_count r)"
proof (intro impI)
  assume a: "(\<forall>s\<in>set (pre @ r # post). valid_stat s)
   \<and> (\<forall>s\<in>set post. (day_of_week s, hour s) \<noteq> (day_of_week r, hour r))"
  let ?d = "nat (day_of_week r)" and ?h = "nat (hour r)"
  from a have vr: "valid_stat r" and vpre: "\<forall>s\<in>set pre. valid_stat s"
    and vpost: "\<forall>s\<in>set post. valid_stat s"
    by simp_all
  from vr have dh: "?d < 7" "?h < 24"
    by (simp_all add: valid_stat_nat)
  from vr have of_nat_dh: "int ?d = day_of_week r" "int ?h = hour r"
    by (simp_all add: valid_stat_def)
  obtain m1 where m1: "fill_matrix zero_matrix pre = Inr m1" and s1: "is_matrix m1"
    using fill_matrix_valid [OF is_matrix_zero vpre] by blast
  let ?m2 = "m1[?d := (m1 ! ?d)[?h := keypress_count r]]"
  have c: "set_cell m1 (day_of_week r) (hour r) (keypress_count r) = Inr ?m2"
    using s1 vr by (rule set_cell_valid)
  have s2: "is_matrix ?m2"
    using s1 dh(1) by (rule is_matrix_update)
  have cell2: "?m2 ! ?d ! ?h = keypress_count r"
    using s1 dh by (simp add: is_matrix_def)
  obtain m3 where m3: "fill_matrix ?m2 post = Inr m3"
    using fill_matrix_valid [OF s2 vpost] by blast
  from a have "\<forall>s\<in>set post. (day_of_week s, hour s) \<noteq> (int ?d, int ?h)"
    unfolding of_nat_dh by blast
  then have "m3 ! ?d ! ?h = ?m2 ! ?d ! ?h"
    using fill_matrix_untouched [OF s2 vpost _ m3 dh] by blast
  with cell2 have cell3: "m3 ! ?d ! ?h = keypress_count r"
    by simp
  have "fill_matrix zero_matrix (pre @ r # post) = Inr m3"
    by (simp add: fill_matrix_append m1 c m3)
  then obtain res where "get_weekly_rhythm (pre @ r # post) = Inr res"
    and "activity_matrix res = m3"
    using weekly_rhythm_matrix [of "pre @ r # post" m3] by auto
  with cell3 show "\<exists>res. get_weekly_rhythm (pre @ r # post) = Inr res
          \<and> activity_matrix res ! nat (day_of_week r) ! nat (hour r) = keypress_count r"
    by auto
qed

theorem weekly_rhythm_last_record_wins_witness:
  "\<exists>res. get_weekly_rhythm
            [\<lparr>day_of_week = 1, hour = 9, keypress_count = 120\<rparr>,
             \<lparr>day_of_week = 1, hour = 9, keypress_count = 7\<rparr>,
             \<lparr>day_of_week = 2, hour = 3, keypress_count = 5\<rparr>] = Inr res
         \<and> activity_matrix res ! 1 ! 9 = 7"
  using weekly_rhythm_last_record_wins
          [of "[\<lparr>day_of_week = 1, hour = 9, keypress_count = 120\<rparr>]"
              "\<lparr>day_of_week = 1, hour = 9, keypress_count = 7\<rparr>"
              "[\<lparr>day_of_week = 2, hour = 3, keypress_count = 5\<rparr>]"]
  by (simp add: valid_stat_def)

end
